theory Spec2Isabelle
  imports Complex_Main
begin

section \<open>JavaScript values\<close>

text \<open>
  A decoded JSON document. An object is kept as its list of own properties in insertion
  order; a property is read with \<open>map_of\<close>. JavaScript's \<open>undefined\<close> is \<open>None\<close>
  of \<open>json option\<close>. Numbers are only carried from one message to the next, so the
  number type is the rationals.
\<close>

datatype json =
    JNull
  | JBool bool
  | JNum rat
  | JStr string
  | JArr "json list"
  | JObj "(string \<times> json) list"

text \<open>ToBoolean, as \<open>!x\<close>, \<open>x && y\<close> and \<open>x || y\<close> apply it.\<close>

fun truthy :: "json \<Rightarrow> bool" where
  "truthy JNull = False"
| "truthy (JBool b) = b"
| "truthy (JNum n) = (n \<noteq> 0)"
| "truthy (JStr s) = (s \<noteq> [])"
| "truthy (JArr xs) = True"
| "truthy (JObj fs) = True"

definition truthy_opt :: "json option \<Rightarrow> bool" where
  "truthy_opt v = (case v of None \<Rightarrow> False | Some x \<Rightarrow> truthy x)"

text \<open>\<open>a || b\<close> where \<open>a\<close> may be undefined.\<close>

definition js_or :: "json option \<Rightarrow> json \<Rightarrow> json" where
  "js_or a b = (case a of None \<Rightarrow> b | Some v \<Rightarrow> if truthy v then v else b)"

text \<open>\<open>Array.prototype.join\<close> on an array of strings.\<close>

fun join :: "string \<Rightarrow> string list \<Rightarrow> string" where
  "join sep [] = []"
| "join sep [x] = x"
| "join sep (x # y # ys) = x @ sep @ join sep (y # ys)"

text \<open>Decimal text of a natural number, as in the key of an array index.\<close>

definition digit :: "nat \<Rightarrow> char" where
  "digit n = ''0123456789'' ! (n mod 10)"

fun show_nat :: "nat \<Rightarrow> string" where
  "show_nat n = (if n < 10 then [digit n] else show_nat (n div 10) @ [digit n])"

declare show_nat.simps [simp del]

text \<open>
  What the handlers catch: an exception object, of which they read \<open>error.response\<close>
  (status and body of a response with a status outside 2xx) and \<open>error.code\<close>. A
  TypeError raised by the handler's own code has neither.
\<close>

record thrown =
  err_response :: "(nat \<times> json) option"
  err_code :: "string option"

definition type_error :: thrown where
  "type_error = \<lparr>err_response = None, err_code = None\<rparr>"

text \<open>
  \<open>data.key\<close> for the keys the two programs read (\<open>prediction\<close>, \<open>probabilities\<close>,
  \<open>class_labels\<close>, \<open>model\<close>, \<open>predictions\<close>, \<open>models\<close>, \<open>error\<close>, \<open>success\<close>)
  on a value that is not \<open>null\<close>: no prototype defines them, so only an object can
  have them. On \<open>null\<close> the read raises a TypeError, which each caller writes out.
\<close>

fun member :: "json \<Rightarrow> string \<Rightarrow> json option" where
  "member (JObj obj) k = map_of obj k"
| "member v k = None"

text \<open>\<open>Object.keys(v).length\<close> for a value that is not null.\<close>

fun object_keys_length :: "json \<Rightarrow> nat" where
  "object_keys_length (JObj fs) = length fs"
| "object_keys_length (JArr xs) = length xs"
| "object_keys_length (JStr s) = length s"
| "object_keys_length v = 0"

text \<open>
  \<open>res.json(obj)\<close> sends \<open>JSON.stringify(obj)\<close>, which leaves out every property
  whose value is undefined.
\<close>

fun stringify_fields :: "(string \<times> json option) list \<Rightarrow> (string \<times> json) list" where
  "stringify_fields [] = []"
| "stringify_fields ((k, None) # obj) = stringify_fields obj"
| "stringify_fields ((k, Some v) # obj) = (k, v) # stringify_fields obj"

section \<open>\<open>new Date().toISOString()\<close>\<close>

text \<open>
  The clock is an input: the number of milliseconds since the epoch that \<open>new Date()\<close>
  holds. \<open>toISOString\<close> is the ECMAScript function: the proleptic Gregorian date of
  the day number (months counted from 1 here), \<open>YYYY-MM-DDTHH:mm:ss.sssZ\<close>, with the
  expanded year \<open>\<plusminus>YYYYYY\<close> outside the years 0 to 9999. The date is
  computed in the 400-year era of the day, in years that start on 1 March.
\<close>

definition pad2 :: "nat \<Rightarrow> string" where
  "pad2 n = [digit (n div 10), digit n]"

definition pad3 :: "nat \<Rightarrow> string" where
  "pad3 n = [digit (n div 100), digit (n div 10), digit n]"

definition pad4 :: "nat \<Rightarrow> string" where
  "pad4 n = [digit (n div 1000), digit (n div 100), digit (n div 10), digit n]"

definition pad6 :: "nat \<Rightarrow> string" where
  "pad6 n = [digit (n div 100000), digit (n div 10000), digit (n div 1000),
             digit (n div 100), digit (n div 10), digit n]"

definition day_of_era :: "int \<Rightarrow> int" where
  "day_of_era t = (t div 86400000 + 719468) mod 146097"

definition year_of_era :: "int \<Rightarrow> int" where
  "year_of_era t =
     (day_of_era t - day_of_era t div 1460 + day_of_era t div 36524
        - day_of_era t div 146096) div 365"

definition day_of_year :: "int \<Rightarrow> int" where
  "day_of_year t =
     day_of_era t - (365 * year_of_era t + year_of_era t div 4 - year_of_era t div 100)"

definition month_index :: "int \<Rightarrow> int" where
  "month_index t = (5 * day_of_year t + 2) div 153"

definition DateFromTime :: "int \<Rightarrow> nat" where
  "DateFromTime t = nat (day_of_year t - (153 * month_index t + 2) div 5 + 1)"

definition MonthFromTime :: "int \<Rightarrow> nat" where
  "MonthFromTime t = nat (if month_index t < 10 then month_index t + 3 else month_index t - 9)"

definition YearFromTime :: "int \<Rightarrow> int" where
  "YearFromTime t =
     year_of_era t + ((t div 86400000 + 719468) div 146097) * 400
       + (if MonthFromTime t \<le> 2 then 1 else 0)"

definition msWithinDay :: "int \<Rightarrow> nat" where
  "msWithinDay t = nat (t mod 86400000)"

definition year_text :: "int \<Rightarrow> string" where
  "year_text y =
     (if 0 \<le> y \<and> y \<le> 9999 then pad4 (nat y)
      else if y < 0 then CHR ''-'' # pad6 (nat (- y))
      else CHR ''+'' # pad6 (nat y))"

definition toISOString :: "int \<Rightarrow> string" where
  "toISOString t =
     year_text (YearFromTime t) @ ''-'' @ pad2 (MonthFromTime t) @ ''-'' @ pad2 (DateFromTime t)
       @ ''T'' @ pad2 (msWithinDay t div 3600000) @ '':'' @ pad2 (msWithinDay t div 60000 mod 60)
       @ '':'' @ pad2 (msWithinDay t div 1000 mod 60) @ ''.'' @ pad3 (msWithinDay t mod 1000)
       @ ''Z''"

text \<open>
  The shape of an ISO-8601 date-time in UTC: a template in which \<open>d\<close> stands for a
  decimal digit and every other character for itself.
\<close>

definition is_digit :: "char \<Rightarrow> bool" where
  "is_digit c = (c \<in> set ''0123456789'')"

fun matches :: "string \<Rightarrow> string \<Rightarrow> bool" where
  "matches [] [] = True"
| "matches (p # ps) (c # cs) = ((if p = CHR ''d'' then is_digit c else c = p) \<and> matches ps cs)"
| "matches ps cs = False"

definition iso8601 :: "string \<Rightarrow> bool" where
  "iso8601 s =
     (matches ''dddd-dd-ddTdd:dd:dd.dddZ'' s
      \<or> matches ''+dddddd-dd-ddTdd:dd:dd.dddZ'' s
      \<or> matches ''-dddddd-dd-ddTdd:dd:dd.dddZ'' s)"

section \<open>The gateway: \<open>Backend/server.js\<close>\<close>

subsection \<open>The whitelist\<close>

definition AVAILABLE_CLASSIFIERS :: "(string \<times> string list) list" where
  "AVAILABLE_CLASSIFIERS =
     [(''BP_Class'', [''GradientBoosting'', ''LogisticRegression'', ''RandomForest'']),
      (''Diabetes_Class'', [''GradientBoosting'', ''LogisticRegression'', ''RandomForest'']),
      (''Dyslipidemia_Class'', [''GradientBoosting'', ''LogisticRegression'', ''RandomForest''])]"

text \<open>
  \<open>AVAILABLE_CLASSIFIERS\<close> is an object literal, so \<open>AVAILABLE_CLASSIFIERS[classifier]\<close>
  reads an own property or, failing that, a property inherited from \<open>Object.prototype\<close>.
  The inherited values are functions, and for \<open>__proto__\<close> the prototype object itself:
  all of them truthy, none of them an array.
\<close>

definition object_prototype_keys :: "string list" where
  "object_prototype_keys =
     [''constructor'', ''__proto__'', ''hasOwnProperty'', ''isPrototypeOf'',
      ''propertyIsEnumerable'', ''toLocaleString'', ''toString'', ''valueOf'',
      ''__defineGetter__'', ''__defineSetter__'', ''__lookupGetter__'', ''__lookupSetter__'']"

datatype lookup_result = Own "string list" | Inherited | Undefined

definition lookup_classifier :: "string \<Rightarrow> lookup_result" where
  "lookup_classifier classifier =
     (case map_of AVAILABLE_CLASSIFIERS classifier of
        Some models \<Rightarrow> Own models
      | None \<Rightarrow> if classifier \<in> set object_prototype_keys then Inherited else Undefined)"

subsection \<open>Requests, responses, the upstream service\<close>

text \<open>
  A value of \<open>req.query\<close>: the query parser gives a string, an array for a repeated
  parameter or an object for a bracketed one.
\<close>

datatype query_value =
    QString string
  | QArray "query_value list"
  | QObject "(string \<times> query_value) list"

fun query_truthy :: "query_value option \<Rightarrow> bool" where
  "query_truthy None = False"
| "query_truthy (Some (QString s)) = (s \<noteq> [])"
| "query_truthy (Some v) = True"

text \<open>The text a template literal puts for the value.\<close>

fun query_text :: "query_value \<Rightarrow> string" where
  "query_text (QString s) = s"
| "query_text (QArray vs) = join '','' (map query_text vs)"
| "query_text (QObject fs) = ''[object Object]''"

text \<open>\<open>models.includes(model)\<close>: only a string equals an entry of the list.\<close>

fun array_includes :: "string list \<Rightarrow> query_value \<Rightarrow> bool" where
  "array_includes models (QString s) = (s \<in> set models)"
| "array_includes models v = False"

record request =
  params_classifier :: string
  query_model :: "query_value option"
  body :: "json option"

record response =
  status :: nat
  payload :: "(string \<times> json) list"

record upstream_call =
  verb :: string
  url :: string
  data :: "json option"
  timeout :: nat

text \<open>
  What awaiting the axios call gives: the body of a 2xx response, or an exception
  with \<open>error.response\<close> (the upstream answered outside 2xx) or without it (nothing
  answered; \<open>error.code\<close> says why).
\<close>

datatype axios_result = Fulfilled json | Rejected thrown

type_synonym upstream = "upstream_call \<Rightarrow> axios_result"

text \<open>
  What a handler does with a request: the response it sends, or none when an exception
  leaves the \<open>catch\<close> block, and the upstream calls it issued.
\<close>

datatype reply = Responded response | Unhandled

definition send :: "nat \<Rightarrow> (string \<times> json option) list \<Rightarrow> response" where
  "send st obj = \<lparr>status = st, payload = stringify_fields obj\<rparr>"

definition invalid_classifier :: response where
  "invalid_classifier =
     send 400 [(''success'', Some (JBool False)),
               (''error'', Some (JStr (''Invalid classifier. Must be one of: ''
                                        @ join '', '' (map fst AVAILABLE_CLASSIFIERS))))]"

definition invalid_model :: "string list \<Rightarrow> response" where
  "invalid_model models =
     send 400 [(''success'', Some (JBool False)),
               (''error'', Some (JStr (''Invalid model type. Must be one of: ''
                                        @ join '', '' models)))]"

definition no_input :: response where
  "no_input =
     send 400 [(''success'', Some (JBool False)),
               (''error'', Some (JStr ''No input data provided''))]"

text \<open>\<open>!inputData || Object.keys(inputData).length === 0\<close>\<close>

definition input_missing :: "json option \<Rightarrow> bool" where
  "input_missing inputData =
     (case inputData of
        None \<Rightarrow> True
      | Some v \<Rightarrow> \<not> truthy v \<or> object_keys_length v = 0)"

subsection \<open>\<open>POST /api/predict/:classifier\<close>\<close>

text \<open>
  Each handler is its \<open>try\<close> block, which ends in a response or in an exception, and
  its \<open>catch\<close> block. \<open>base\<close> is \<open>PYTHON_SERVICE_URL\<close>, \<open>now\<close> the clock when the
  response is built, \<open>axios\<close> the upstream service as the handler sees it.
\<close>

definition predict_url :: "string \<Rightarrow> string \<Rightarrow> query_value option \<Rightarrow> string" where
  "predict_url base classifier model =
     base @ ''/predict/'' @ classifier
       @ (case model of
            None \<Rightarrow> []
          | Some m \<Rightarrow> if query_truthy model then ''?model='' @ query_text m else [])"

definition predict_call :: "string \<Rightarrow> request \<Rightarrow> upstream_call" where
  "predict_call base req =
     \<lparr>verb = ''POST'', url = predict_url base (params_classifier req) (query_model req),
      data = body req, timeout = 10000\<rparr>"

definition predict_forward ::
  "string \<Rightarrow> int \<Rightarrow> upstream \<Rightarrow> request \<Rightarrow> (thrown + response) \<times> upstream_call list" where
  "predict_forward base now axios req =
     (let call = predict_call base req
      in case axios call of
           Rejected e \<Rightarrow> (Inl e, [call])
         | Fulfilled d \<Rightarrow>
             if d = JNull then (Inl type_error, [call])
             else (Inr (send 200
                [(''success'', Some (JBool True)),
                 (''classifier'', Some (JStr (params_classifier req))),
                 (''prediction'', member d ''prediction''),
                 (''probabilities'', member d ''probabilities''),
                 (''class_labels'', member d ''class_labels''),
                 (''model'', member d ''model''),
                 (''input'', body req),
                 (''timestamp'', Some (JStr (toISOString now)))]), [call]))"

definition predict_try ::
  "string \<Rightarrow> int \<Rightarrow> upstream \<Rightarrow> request \<Rightarrow> (thrown + response) \<times> upstream_call list" where
  "predict_try base now axios req =
     (case lookup_classifier (params_classifier req) of
        Undefined \<Rightarrow> (Inr invalid_classifier, [])
      | Inherited \<Rightarrow>
          if query_truthy (query_model req) then (Inl type_error, [])
          else if input_missing (body req) then (Inr no_input, [])
          else predict_forward base now axios req
      | Own models \<Rightarrow>
          if query_truthy (query_model req)
             \<and> \<not> (case query_model req of None \<Rightarrow> False | Some m \<Rightarrow> array_includes models m)
          then (Inr (invalid_model models), [])
          else if input_missing (body req) then (Inr no_input, [])
          else predict_forward base now axios req)"

text \<open>
  The three \<open>catch\<close> blocks of the relay operations differ in the fallback messages, and
  in that the one of compare-models has no branch for \<open>ECONNREFUSED\<close>.
  \<open>error.response.data.error\<close> raises a TypeError inside the \<open>catch\<close> block when the
  upstream's body is \<open>null\<close>.
\<close>

definition upstream_error :: "nat \<times> json \<Rightarrow> string \<Rightarrow> reply" where
  "upstream_error r fallback =
     (if snd r = JNull then Unhandled
      else Responded (send (fst r)
             [(''success'', Some (JBool False)),
              (''error'', Some (js_or (member (snd r) ''error'') (JStr fallback)))]))"

definition service_down :: response where
  "service_down =
     send 503 [(''success'', Some (JBool False)),
               (''error'', Some (JStr ''Python service is not running. Please start the Flask server.''))]"

definition internal_error :: "string \<Rightarrow> response" where
  "internal_error message =
     send 500 [(''success'', Some (JBool False)), (''error'', Some (JStr message))]"

definition predict_catch :: "thrown \<Rightarrow> reply" where
  "predict_catch error =
     (case err_response error of
        Some r \<Rightarrow> upstream_error r ''Prediction failed''
      | None \<Rightarrow>
          if err_code error = Some ''ECONNREFUSED'' then Responded service_down
          else Responded (internal_error ''Internal server error during prediction''))"

definition predict :: "string \<Rightarrow> int \<Rightarrow> upstream \<Rightarrow> request \<Rightarrow> reply \<times> upstream_call list" where
  "predict base now axios req =
     (case predict_try base now axios req of
        (Inr res, calls) \<Rightarrow> (Responded res, calls)
      | (Inl error, calls) \<Rightarrow> (predict_catch error, calls))"

subsection \<open>\<open>POST /api/predict-all\<close>\<close>

definition predict_all_call :: "string \<Rightarrow> request \<Rightarrow> upstream_call" where
  "predict_all_call base req =
     \<lparr>verb = ''POST'', url = base @ ''/predict-all'', data = body req, timeout = 15000\<rparr>"

definition predict_all_try ::
  "string \<Rightarrow> int \<Rightarrow> upstream \<Rightarrow> request \<Rightarrow> (thrown + response) \<times> upstream_call list" where
  "predict_all_try base now axios req =
     (if input_missing (body req) then (Inr no_input, [])
      else
        let call = predict_all_call base req
        in case axios call of
             Rejected e \<Rightarrow> (Inl e, [call])
           | Fulfilled d \<Rightarrow>
               if d = JNull then (Inl type_error, [call])
               else (Inr (send 200
                  [(''success'', Some (JBool True)),
                   (''predictions'', member d ''predictions''),
                   (''input'', body req),
                   (''timestamp'', Some (JStr (toISOString now)))]), [call]))"

definition predict_all_catch :: "thrown \<Rightarrow> reply" where
  "predict_all_catch error =
     (case err_response error of
        Some r \<Rightarrow> upstream_error r ''Batch prediction failed''
      | None \<Rightarrow>
          if err_code error = Some ''ECONNREFUSED'' then Responded service_down
          else Responded (internal_error ''Internal server error during batch prediction''))"

definition predict_all :: "string \<Rightarrow> int \<Rightarrow> upstream \<Rightarrow> request \<Rightarrow> reply \<times> upstream_call list" where
  "predict_all base now axios req =
     (case predict_all_try base now axios req of
        (Inr res, calls) \<Rightarrow> (Responded res, calls)
      | (Inl error, calls) \<Rightarrow> (predict_all_catch error, calls))"

subsection \<open>\<open>POST /api/compare-models/:classifier\<close>\<close>

definition compare_models_call :: "string \<Rightarrow> request \<Rightarrow> upstream_call" where
  "compare_models_call base req =
     \<lparr>verb = ''POST'', url = base @ ''/compare-models/'' @ params_classifier req,
      data = body req, timeout = 15000\<rparr>"

definition compare_models_try ::
  "string \<Rightarrow> int \<Rightarrow> upstream \<Rightarrow> request \<Rightarrow> (thrown + response) \<times> upstream_call list" where
  "compare_models_try base now axios req =
     (if lookup_classifier (params_classifier req) = Undefined then (Inr invalid_classifier, [])
      else if input_missing (body req) then (Inr no_input, [])
      else
        let call = compare_models_call base req
        in case axios call of
             Rejected e \<Rightarrow> (Inl e, [call])
           | Fulfilled d \<Rightarrow>
               if d = JNull then (Inl type_error, [call])
               else (Inr (send 200
                  [(''success'', Some (JBool True)),
                   (''classifier'', Some (JStr (params_classifier req))),
                   (''models'', member d ''models''),
                   (''input'', body req),
                   (''timestamp'', Some (JStr (toISOString now)))]), [call]))"

definition compare_models_catch :: "thrown \<Rightarrow> reply" where
  "compare_models_catch error =
     (case err_response error of
        Some r \<Rightarrow> upstream_error r ''Model comparison failed''
      | None \<Rightarrow> Responded (internal_error ''Internal server error during model comparison''))"

definition compare_models ::
  "string \<Rightarrow> int \<Rightarrow> upstream \<Rightarrow> request \<Rightarrow> reply \<times> upstream_call list" where
  "compare_models base now axios req =
     (case compare_models_try base now axios req of
        (Inr res, calls) \<Rightarrow> (Responded res, calls)
      | (Inl error, calls) \<Rightarrow> (compare_models_catch error, calls))"

subsection \<open>\<open>GET /api/model-info/:classifier\<close>\<close>

text \<open>
  \<open>{success: true, ...response.data}\<close>: the own enumerable properties of the data are
  written after \<open>success\<close>, a property of the same name replacing the value in place.
  An array or a string spreads into its indices, any other value into nothing. (The
  order in which an engine lists index keys among the others is not kept.)
\<close>

fun assign :: "(string \<times> 'a) list \<Rightarrow> string \<times> 'a \<Rightarrow> (string \<times> 'a) list" where
  "assign [] (k, v) = [(k, v)]"
| "assign ((k', v') # obj) (k, v) =
     (if k' = k then (k, v) # obj else (k', v') # assign obj (k, v))"

fun own_properties :: "json \<Rightarrow> (string \<times> json) list" where
  "own_properties (JObj obj) = obj"
| "own_properties (JArr xs) = zip (map show_nat [0..<length xs]) xs"
| "own_properties (JStr s) = zip (map show_nat [0..<length s]) (map (\<lambda>c. JStr [c]) s)"
| "own_properties v = []"

definition spread :: "(string \<times> json) list \<Rightarrow> json \<Rightarrow> (string \<times> json) list" where
  "spread obj d = foldl assign obj (own_properties d)"

definition model_info_url :: "string \<Rightarrow> string \<Rightarrow> query_value option \<Rightarrow> string" where
  "model_info_url base classifier model =
     base @ ''/model-info/'' @ classifier
       @ (case model of
            None \<Rightarrow> []
          | Some m \<Rightarrow> if query_truthy model then ''?model='' @ query_text m else [])"

definition model_info_call :: "string \<Rightarrow> request \<Rightarrow> upstream_call" where
  "model_info_call base req =
     \<lparr>verb = ''GET'', url = model_info_url base (params_classifier req) (query_model req),
      data = None, timeout = 5000\<rparr>"

definition model_info_try ::
  "string \<Rightarrow> upstream \<Rightarrow> request \<Rightarrow> (thrown + response) \<times> upstream_call list" where
  "model_info_try base axios req =
     (if lookup_classifier (params_classifier req) = Undefined then (Inr invalid_classifier, [])
      else
        let call = model_info_call base req
        in case axios call of
             Rejected e \<Rightarrow> (Inl e, [call])
           | Fulfilled d \<Rightarrow>
               (Inr \<lparr>status = 200, payload = spread [(''success'', JBool True)] d\<rparr>, [call]))"

definition model_info_catch :: "thrown \<Rightarrow> reply" where
  "model_info_catch error =
     Responded (send 500 [(''success'', Some (JBool False)),
                          (''error'', Some (JStr ''Failed to retrieve model information''))])"

definition model_info :: "string \<Rightarrow> upstream \<Rightarrow> request \<Rightarrow> reply \<times> upstream_call list" where
  "model_info base axios req =
     (case model_info_try base axios req of
        (Inr res, calls) \<Rightarrow> (Responded res, calls)
      | (Inl error, calls) \<Rightarrow> (model_info_catch error, calls))"

section \<open>The client: \<open>Frontend/src/Pages/Prediction.jsx\<close>\<close>

subsection \<open>Constants\<close>

definition CLASSIFIERS :: "(string \<times> string) list" where
  "CLASSIFIERS =
     [(''BP_Class'', ''Blood Pressure''),
      (''Diabetes_Class'', ''Diabetes''),
      (''Dyslipidemia_Class'', ''Dyslipidemia (Cholesterol)'')]"

definition MODEL_TYPES :: "string list" where
  "MODEL_TYPES = [''GradientBoosting'', ''LogisticRegression'', ''RandomForest'']"

definition API_BASE_URL :: string where
  "API_BASE_URL = ''http://localhost:3000''"

text \<open>\<open>FIELD_CONFIG\<close>, of which the handlers read the labels only.\<close>

definition FIELD_CONFIG :: "(string \<times> string) list" where
  "FIELD_CONFIG =
     [(''age'', ''Age''),
      (''sex'', ''Sex''),
      (''weight'', ''Weight (kg)''),
      (''height'', ''Height (cm)''),
      (''BMI'', ''BMI''),
      (''smoking'', ''Smoking Status''),
      (''alcohol_consumption'', ''Alcohol Consumption''),
      (''physical_activity'', ''Physical Activity Level''),
      (''family_history'', ''Family History''),
      (''cholesterol_medication'', ''Cholesterol Medication'')]"

text \<open>
  \<open>FIELD_CONFIG[key]?.label || key\<close>. A key that \<open>FIELD_CONFIG\<close> inherits from
  \<open>Object.prototype\<close> has a value without a \<open>label\<close>, so it gives the key as well.
\<close>

definition field_label :: "string \<Rightarrow> string" where
  "field_label key =
     (case map_of FIELD_CONFIG key of
        None \<Rightarrow> key
      | Some label \<Rightarrow> if label = [] then key else label)"

text \<open>The form state \<open>inputs\<close> as \<open>useState\<close> creates it: ten fields, all empty.\<close>

definition initial_inputs :: "(string \<times> string) list" where
  "initial_inputs =
     [(''age'', []), (''sex'', []), (''weight'', []), (''height'', []), (''BMI'', []),
      (''smoking'', []), (''alcohol_consumption'', []), (''physical_activity'', []),
      (''family_history'', []), (''cholesterol_medication'', [])]"

definition handleChange :: "(string \<times> string) list \<Rightarrow> string \<Rightarrow> string \<Rightarrow> (string \<times> string) list" where
  "handleChange prev name v = assign prev (name, v)"

subsection \<open>\<open>parseFloat\<close>\<close>

text \<open>
  \<open>parseFloat\<close> skips leading white space and reads the longest prefix that is a
  decimal literal: an optional sign, then \<open>Infinity\<close>, or digits with an optional
  fraction and exponent, or a fraction that starts with the point. Without such a prefix
  the result is NaN. The value kept here is the exact decimal; its rounding to a double
  and the sign of zero are not modelled. (White space is the ASCII part of it.)
\<close>

datatype number = NaN | PlusInfinity | MinusInfinity | Finite rat

definition is_white_space :: "char \<Rightarrow> bool" where
  "is_white_space c = (c \<in> set [CHR 0x20, CHR 0x09, CHR 0x0A, CHR 0x0B, CHR 0x0C, CHR 0x0D])"

definition digits_value :: "string \<Rightarrow> nat" where
  "digits_value ds = foldl (\<lambda>n c. 10 * n + (of_char c - 48)) 0 ds"

definition sign_of :: "string \<Rightarrow> int" where
  "sign_of s = (case s of [] \<Rightarrow> 1 | c # r \<Rightarrow> if c = CHR ''-'' then - 1 else 1)"

definition after_sign :: "string \<Rightarrow> string" where
  "after_sign s =
     (case s of [] \<Rightarrow> [] | c # r \<Rightarrow> if c = CHR ''-'' \<or> c = CHR ''+'' then r else s)"

definition fraction_digits :: "string \<Rightarrow> string" where
  "fraction_digits s =
     (case dropWhile is_digit s of
        [] \<Rightarrow> []
      | c # r \<Rightarrow> if c = CHR ''.'' then takeWhile is_digit r else [])"

definition after_mantissa :: "string \<Rightarrow> string" where
  "after_mantissa s =
     (case dropWhile is_digit s of
        [] \<Rightarrow> []
      | c # r \<Rightarrow> if c = CHR ''.'' then dropWhile is_digit r else c # r)"

definition exponent :: "string \<Rightarrow> int" where
  "exponent s =
     (case s of
        [] \<Rightarrow> 0
      | c # r \<Rightarrow>
          if (c = CHR ''e'' \<or> c = CHR ''E'') \<and> takeWhile is_digit (after_sign r) \<noteq> []
          then sign_of r * int (digits_value (takeWhile is_digit (after_sign r)))
          else 0)"

definition scale :: "rat \<Rightarrow> int \<Rightarrow> rat" where
  "scale x e = (if 0 \<le> e then x * 10 ^ nat e else x / 10 ^ nat (- e))"

definition mantissa :: "string \<Rightarrow> rat" where
  "mantissa s =
     of_nat (digits_value (takeWhile is_digit s))
       + of_nat (digits_value (fraction_digits s)) / 10 ^ length (fraction_digits s)"

definition parse_unsigned :: "int \<Rightarrow> string \<Rightarrow> number" where
  "parse_unsigned sign s =
     (if take 8 s = ''Infinity'' then (if sign < 0 then MinusInfinity else PlusInfinity)
      else if takeWhile is_digit s = [] \<and> fraction_digits s = [] then NaN
      else Finite (of_int sign * scale (mantissa s) (exponent (after_mantissa s))))"

definition parseFloat :: "string \<Rightarrow> number" where
  "parseFloat string =
     parse_unsigned (sign_of (dropWhile is_white_space string))
       (after_sign (dropWhile is_white_space string))"

subsection \<open>\<open>validateInputs\<close>, \<open>prepareInputData\<close>\<close>

text \<open>
  \<open>validateInputs\<close> gives the message it passes to \<open>setError\<close> when it returns false,
  and nothing when it returns true.
\<close>

definition validateInputs :: "(string \<times> string) list \<Rightarrow> string option" where
  "validateInputs inputs =
     (let emptyFields = filter (\<lambda>(key, v). v = []) inputs
      in if length emptyFields > 0
         then Some (''Please fill in all fields: ''
                      @ join '', '' (map (\<lambda>(key, v). field_label key) emptyFields))
         else None)"

text \<open>
  \<open>prepareInputData\<close> fills \<open>numericInputs\<close> entry by entry and throws at the first
  value that is not numeric; the result is the thrown message or the filled object.
\<close>

fun prepareInputData_loop ::
  "(string \<times> string) list \<Rightarrow> (string \<times> number) list \<Rightarrow> string + (string \<times> number) list" where
  "prepareInputData_loop [] numericInputs = Inr numericInputs"
| "prepareInputData_loop ((key, v) # rest) numericInputs =
     (if parseFloat v = NaN
      then Inl (''Invalid numeric value for '' @ field_label key @ '': '' @ v)
      else prepareInputData_loop rest (assign numericInputs (key, parseFloat v)))"

definition prepareInputData :: "(string \<times> string) list \<Rightarrow> string + (string \<times> number) list" where
  "prepareInputData inputs = prepareInputData_loop inputs []"

subsection \<open>State updates and network calls\<close>

text \<open>
  \<open>err.message\<close> as the handlers store it: a string, or for
  \<open>new Error(v)\<close> with a value that is not a string the text \<open>String(v)\<close>, kept as
  the value.
\<close>

datatype message = Message string | ToString json

definition error_message :: "json \<Rightarrow> message" where
  "error_message v = (case v of JStr s \<Rightarrow> Message s | _ \<Rightarrow> ToString v)"

text \<open>The message of the TypeError for reading a property of \<open>null\<close>.\<close>

definition null_read :: "string \<Rightarrow> string" where
  "null_read key = ''Cannot read properties of null (reading '' @ [CHR 0x27] @ key @ [CHR 0x27] @ '')''"

record fetch_call =
  fetch_url :: string
  fetch_method :: string
  fetch_body :: "(string \<times> number) list"

text \<open>
  What awaiting \<open>fetch\<close> and then \<open>response.json()\<close> gives: \<open>fetch\<close> rejects with
  a message, or there is a response with its \<open>ok\<close> flag, whose body either fails to
  parse (a message) or is the parsed data.
\<close>

datatype fetch_result = Failed string | Answered bool "string + json"

type_synonym network = "fetch_call \<Rightarrow> fetch_result"

text \<open>One entry of \<open>allPredictions[classifierKey]\<close>.\<close>

datatype entry =
    Prediction "json option" "json option" "json option"
  | Error json

type_synonym aggregate = "(string \<times> (string \<times> entry) list) list"

text \<open>
  The \<open>prediction\<close> state when it is not \<open>null\<close>: the data of a single prediction,
  or the complete analysis \<open>{success: true, predictions, input}\<close>.
\<close>

datatype displayed =
    Single json
  | Complete aggregate "(string \<times> number) list"

datatype event =
    SetLoading bool
  | SetError "message option"
  | SetPrediction "displayed option"
  | Fetch fetch_call

record view =
  prediction :: "displayed option"
  loading :: bool
  error :: "message option"

fun apply_event :: "view \<Rightarrow> event \<Rightarrow> view" where
  "apply_event v (SetLoading b) = v\<lparr>loading := b\<rparr>"
| "apply_event v (SetError e) = v\<lparr>error := e\<rparr>"
| "apply_event v (SetPrediction p) = v\<lparr>prediction := p\<rparr>"
| "apply_event v (Fetch c) = v"

definition run :: "view \<Rightarrow> event list \<Rightarrow> view" where
  "run v events = foldl apply_event v events"

definition predict_request :: "string \<Rightarrow> string \<Rightarrow> (string \<times> number) list \<Rightarrow> fetch_call" where
  "predict_request classifier model numericInputs =
     \<lparr>fetch_url = API_BASE_URL @ ''/api/predict/'' @ classifier @ ''?model='' @ model,
      fetch_method = ''POST'', fetch_body = numericInputs\<rparr>"

subsection \<open>\<open>handleSinglePredict\<close>\<close>

definition single_outcome :: "fetch_result \<Rightarrow> event" where
  "single_outcome r =
     (case r of
        Failed m \<Rightarrow> SetError (Some (Message m))
      | Answered ok (Inl m) \<Rightarrow> SetError (Some (Message m))
      | Answered ok (Inr d) \<Rightarrow>
          if ok then SetPrediction (if d = JNull then None else Some (Single d))
          else if d = JNull then SetError (Some (Message (null_read ''error'')))
          else SetError (Some (error_message
                 (js_or (member d ''error'') (JStr ''Prediction failed'')))))"

definition handleSinglePredict ::
  "network \<Rightarrow> (string \<times> string) list \<Rightarrow> string \<Rightarrow> string \<Rightarrow> event list" where
  "handleSinglePredict fetch inputs classifier modelType =
     (case validateInputs inputs of
        Some m \<Rightarrow> [SetError (Some (Message m))]
      | None \<Rightarrow>
          [SetLoading True, SetError None, SetPrediction None]
          @ (case prepareInputData inputs of
               Inl m \<Rightarrow> [SetError (Some (Message m))]
             | Inr numericInputs \<Rightarrow>
                 [Fetch (predict_request classifier modelType numericInputs),
                  single_outcome (fetch (predict_request classifier modelType numericInputs))])
          @ [SetLoading False])"

subsection \<open>\<open>handlePredictAll\<close>\<close>

text \<open>What the inner \<open>try\<close>/\<open>catch\<close> stores for one pair.\<close>

definition pair_outcome :: "fetch_result \<Rightarrow> entry" where
  "pair_outcome r =
     (case r of
        Failed m \<Rightarrow> Error (JStr m)
      | Answered ok (Inl m) \<Rightarrow> Error (JStr m)
      | Answered ok (Inr d) \<Rightarrow>
          if d = JNull then Error (JStr (null_read (if ok then ''success'' else ''error'')))
          else if ok \<and> truthy_opt (member d ''success'')
          then Prediction (member d ''prediction'') (member d ''probabilities'')
                 (member d ''class_labels'')
          else Error (js_or (member d ''error'') (JStr ''Prediction failed'')))"

text \<open>
  The inner loop fills the object \<open>allPredictions[classifierKey]\<close>, the outer loop the
  object \<open>allPredictions\<close>; both return what they filled and the calls they awaited,
  in order.
\<close>

fun models_loop ::
  "network \<Rightarrow> (string \<times> number) list \<Rightarrow> string \<Rightarrow> string list \<Rightarrow> (string \<times> entry) list
     \<Rightarrow> (string \<times> entry) list \<times> event list" where
  "models_loop fetch numericInputs classifierKey [] filled = (filled, [])"
| "models_loop fetch numericInputs classifierKey (model # rest) filled =
     (case models_loop fetch numericInputs classifierKey rest
             (assign filled
                (model, pair_outcome (fetch (predict_request classifierKey model numericInputs)))) of
        (final, events) \<Rightarrow>
          (final, Fetch (predict_request classifierKey model numericInputs) # events))"

fun classifiers_loop ::
  "network \<Rightarrow> (string \<times> number) list \<Rightarrow> string list \<Rightarrow> aggregate \<Rightarrow> aggregate \<times> event list" where
  "classifiers_loop fetch numericInputs [] allPredictions = (allPredictions, [])"
| "classifiers_loop fetch numericInputs (classifierKey # rest) allPredictions =
     (case models_loop fetch numericInputs classifierKey MODEL_TYPES [] of
        (filled, events) \<Rightarrow>
          (case classifiers_loop fetch numericInputs rest
                  (assign allPredictions (classifierKey, filled)) of
             (final, events') \<Rightarrow> (final, events @ events')))"

definition handlePredictAll :: "network \<Rightarrow> (string \<times> string) list \<Rightarrow> event list" where
  "handlePredictAll fetch inputs =
     (case validateInputs inputs of
        Some m \<Rightarrow> [SetError (Some (Message m))]
      | None \<Rightarrow>
          [SetLoading True, SetError None, SetPrediction None]
          @ (case prepareInputData inputs of
               Inl m \<Rightarrow> [SetError (Some (Message m))]
             | Inr numericInputs \<Rightarrow>
                 (case classifiers_loop fetch numericInputs (map fst CLASSIFIERS) [] of
                    (allPredictions, events) \<Rightarrow>
                      events @ [SetPrediction (Some (Complete allPredictions numericInputs))]))
          @ [SetLoading False])"

subsection \<open>Vocabulary for the properties of the client\<close>

text \<open>The pairs of the complete analysis, in the order of the two loops.\<close>

definition pairs :: "(string \<times> string) list" where
  "pairs = List.product (map fst CLASSIFIERS) MODEL_TYPES"

text \<open>What the two loops are to compute: for every pair the outcome of its own call.\<close>

definition aggregate_of :: "network \<Rightarrow> (string \<times> number) list \<Rightarrow> aggregate" where
  "aggregate_of fetch numericInputs =
     map (\<lambda>classifierKey.
            (classifierKey,
             map (\<lambda>model. (model, pair_outcome (fetch (predict_request classifierKey model numericInputs))))
               MODEL_TYPES))
       (map fst CLASSIFIERS)"

definition entries :: "aggregate \<Rightarrow> ((string \<times> string) \<times> entry) list" where
  "entries allPredictions =
     concat (map (\<lambda>(classifierKey, filled). map (\<lambda>(model, e). ((classifierKey, model), e)) filled)
               allPredictions)"

fun is_error :: "entry \<Rightarrow> bool" where
  "is_error (Error e) = True"
| "is_error (Prediction p ps labels) = False"

fun is_fetch :: "event \<Rightarrow> bool" where
  "is_fetch (Fetch c) = True"
| "is_fetch e = False"

fun is_prediction_update :: "event \<Rightarrow> bool" where
  "is_prediction_update (SetPrediction p) = True"
| "is_prediction_update e = False"

text \<open>A call of the gateway that the inner \<open>try\<close> block stores as a prediction.\<close>

fun succeeds :: "fetch_result \<Rightarrow> bool" where
  "succeeds (Answered ok (Inr d)) = (ok \<and> d \<noteq> JNull \<and> truthy_opt (member d ''success''))"
| "succeeds r = False"

text \<open>The states the component goes through: before the first event and after each one.\<close>

fun history :: "view \<Rightarrow> event list \<Rightarrow> view list" where
  "history v [] = [v]"
| "history v (e # events) = v # history (apply_event v e) events"

text \<open>The entries of the complete analysis that a run of events leaves on display.\<close>

definition final_entries :: "view \<Rightarrow> event list \<Rightarrow> ((string \<times> string) \<times> entry) list" where
  "final_entries v events =
     (case prediction (run v events) of
        Some (Complete allPredictions numericInputs) \<Rightarrow> entries allPredictions
      | _ \<Rightarrow> [])"

text \<open>A filled form, and the record \<open>prepareInputData\<close> makes of it.\<close>

definition example_inputs :: "(string \<times> string) list" where
  "example_inputs =
     [(''age'', ''45''), (''sex'', ''1''), (''weight'', ''82.5''), (''height'', ''178''),
      (''BMI'', ''26.04''), (''smoking'', ''0''), (''alcohol_consumption'', ''1''),
      (''physical_activity'', ''2''), (''family_history'', ''1''),
      (''cholesterol_medication'', ''0'')]"

definition example_record :: "(string \<times> number) list" where
  "example_record =
     [(''age'', Finite 45), (''sex'', Finite 1), (''weight'', Finite (165 / 2)),
      (''height'', Finite 178), (''BMI'', Finite (651 / 25)), (''smoking'', Finite 0),
      (''alcohol_consumption'', Finite 1), (''physical_activity'', Finite 2),
      (''family_history'', Finite 1), (''cholesterol_medication'', Finite 0)]"

definition initial_view :: view where
  "initial_view = \<lparr>prediction = None, loading = False, error = None\<rparr>"

text \<open>
  A gateway that answers every pair with a prediction, except that the call for one
  pair fails in the network.
\<close>

definition failing_at :: "string \<Rightarrow> string \<Rightarrow> network" where
  "failing_at classifier model call =
     (if fetch_url call = fetch_url (predict_request classifier model [])
      then Failed ''Failed to fetch''
      else Answered True
             (Inr (JObj [(''success'', JBool True), (''prediction'', JNum 1),
                         (''probabilities'', JArr [JArr [JNum (1 / 5), JNum (4 / 5)]]),
                         (''class_labels'', JArr [JStr ''Negative'', JStr ''Positive''])])))"

section \<open>Properties of the gateway\<close>

subsection \<open>Which call a handler issues\<close>

lemma snd_predict_forward: "snd (predict_forward base now axios req) = [predict_call base req]"
  by (simp add: predict_forward_def Let_def split: axios_result.splits)

lemma snd_predict: "snd (predict base now axios req) = snd (predict_try base now axios req)"
  by (simp add: predict_def split: prod.splits sum.splits)

lemma predict_forwarded:
  assumes "snd (predict base now axios req) = [call]"
  shows "predict_try base now axios req = predict_forward base now axios req"
    and "call = predict_call base req"
proof -
  from assms have s: "snd (predict_try base now axios req) = [call]"
    by (simp add: snd_predict)
  then show "predict_try base now axios req = predict_forward base now axios req"
    by (auto simp: predict_try_def split: lookup_result.splits if_splits)
  with s show "call = predict_call base req"
    by (simp add: snd_predict_forward)
qed

lemma snd_predict_all:
  "snd (predict_all base now axios req) = (if input_missing (body req) then [] else [predict_all_call base req])"
  by (simp add: predict_all_def predict_all_try_def Let_def split: prod.splits sum.splits axios_result.splits)

lemma snd_compare_models:
  "snd (compare_models base now axios req) =
     (if lookup_classifier (params_classifier req) = Undefined \<or> input_missing (body req) then []
      else [compare_models_call base req])"
  by (simp add: compare_models_def compare_models_try_def Let_def split: prod.splits sum.splits axios_result.splits)

lemma snd_model_info:
  "snd (model_info base axios req) =
     (if lookup_classifier (params_classifier req) = Undefined then [] else [model_info_call base req])"
  by (simp add: model_info_def model_info_try_def Let_def split: prod.splits sum.splits axios_result.splits)

lemma predict_rejected:
  assumes "snd (predict base now axios req) = [call]" and "axios call = Rejected e"
  shows "fst (predict base now axios req) = predict_catch e"
  using predict_forwarded [OF assms(1)] assms(2)
  by (simp add: predict_def predict_forward_def)

lemma predict_all_rejected:
  assumes "snd (predict_all base now axios req) = [call]" and "axios call = Rejected e"
  shows "fst (predict_all base now axios req) = predict_all_catch e"
proof -
  from assms(1) have "\<not> input_missing (body req)" and "call = predict_all_call base req"
    by (auto simp: snd_predict_all split: if_splits)
  with assms(2) show ?thesis
    by (simp add: predict_all_def predict_all_try_def)
qed

lemma compare_models_rejected:
  assumes "snd (compare_models base now axios req) = [call]" and "axios call = Rejected e"
  shows "fst (compare_models base now axios req) = compare_models_catch e"
proof -
  from assms(1) have "lookup_classifier (params_classifier req) \<noteq> Undefined"
    and "\<not> input_missing (body req)" and "call = compare_models_call base req"
    by (auto simp: snd_compare_models split: if_splits)
  with assms(2) show ?thesis
    by (simp add: compare_models_def compare_models_try_def)
qed

lemma model_info_rejected:
  assumes "snd (model_info base axios req) = [call]" and "axios call = Rejected e"
  shows "fst (model_info base axios req) = model_info_catch e"
proof -
  from assms(1) have "lookup_classifier (params_classifier req) \<noteq> Undefined"
    and "call = model_info_call base req"
    by (auto simp: snd_model_info split: if_splits)
  with assms(2) show ?thesis
    by (simp add: model_info_def model_info_try_def)
qed

lemma upstream_error_object:
  "upstream_error (st, JObj d) fallback =
     Responded \<lparr>status = st,
       payload = [(''success'', JBool False), (''error'', js_or (map_of d ''error'') (JStr fallback))]\<rparr>"
  by (simp add: upstream_error_def send_def)


subsection \<open>The fixed responses\<close>

lemma invalid_classifier_response:
  "invalid_classifier =
     \<lparr>status = 400,
      payload = [(''success'', JBool False),
                 (''error'', JStr ''Invalid classifier. Must be one of: BP_Class, Diabetes_Class, Dyslipidemia_Class'')]\<rparr>"
  by (simp add: invalid_classifier_def send_def AVAILABLE_CLASSIFIERS_def)


lemma service_down_response:
  "service_down =
     \<lparr>status = 503,
      payload = [(''success'', JBool False),
                 (''error'', JStr ''Python service is not running. Please start the Flask server.'')]\<rparr>"
  by (simp add: service_down_def send_def)

subsection \<open>Validation\<close>

lemma lookup_classifier_Undefined:
  "lookup_classifier c = Undefined \<longleftrightarrow>
     c \<notin> set (map fst AVAILABLE_CLASSIFIERS) \<and> c \<notin> set object_prototype_keys"
  by (auto simp: lookup_classifier_def AVAILABLE_CLASSIFIERS_def split: option.splits if_splits)

lemma lookup_classifier_Own:
  "lookup_classifier c = Own models \<longleftrightarrow> map_of AVAILABLE_CLASSIFIERS c = Some models"
  by (auto simp: lookup_classifier_def split: option.splits)

lemma unknown_classifier_rejected:
  assumes "lookup_classifier (params_classifier req) = Undefined"
  shows "predict base now axios req = (Responded invalid_classifier, [])"
    and "compare_models base now axios req = (Responded invalid_classifier, [])"
    and "model_info base axios req = (Responded invalid_classifier, [])"
  using assms
  by (simp_all add: predict_def predict_try_def compare_models_def compare_models_try_def
        model_info_def model_info_try_def)

lemma connection_refused_siblings:
  assumes "axios call = Rejected e" and "err_response e = None"
      and "err_code e = Some ''ECONNREFUSED''"
  shows "snd (predict base now axios req) = [call]
           \<Longrightarrow> fst (predict base now axios req) = Responded service_down"
    and "snd (predict_all base now axios req) = [call]
           \<Longrightarrow> fst (predict_all base now axios req) = Responded service_down"
  using assms
  by (simp_all add: predict_rejected predict_all_rejected predict_catch_def predict_all_catch_def)

text \<open>
  Claim C1: every relay operation answers an unreachable upstream (connection refused)
  with 503 and a message that the inference service is down, never with a generic 500.
  Single predict and predict-all do so (lemma \<open>connection_refused_siblings\<close>). The
  \<open>catch\<close> block of compare-models lacks the branch: for
  \<open>POST /api/compare-models/BP_Class\<close> with body \<open>{age: 45}\<close> and an upstream that
  refuses the connection, the call is issued and the gateway answers 500,
  \<open>Internal server error during model comparison\<close>.
\<close>

theorem compare_models_connection_refused:
  "compare_models ''http://localhost:5000'' 1700000000000
     (\<lambda>call. Rejected \<lparr>err_response = None, err_code = Some ''ECONNREFUSED''\<rparr>)
     \<lparr>params_classifier = ''BP_Class'', query_model = None,
      body = Some (JObj [(''age'', JNum 45)])\<rparr>
   = (Responded \<lparr>status = 500,
        payload = [(''success'', JBool False),
                   (''error'', JStr ''Internal server error during model comparison'')]\<rparr>,
      [\<lparr>verb = ''POST'', url = ''http://localhost:5000/compare-models/BP_Class'',
        data = Some (JObj [(''age'', JNum 45)]), timeout = 15000\<rparr>])"
  by (simp add: compare_models_def compare_models_try_def compare_models_catch_def
        compare_models_call_def lookup_classifier_def AVAILABLE_CLASSIFIERS_def
        input_missing_def internal_error_def send_def)

text \<open>
  Claim C4: for every ClassifierId outside the whitelist, single predict, compare-models
  and model-info answer 400 with the list of valid classifiers, and issue no upstream
  call. This holds for every identifier that \<open>AVAILABLE_CLASSIFIERS[classifier]\<close> finds
  undefined (lemma \<open>unknown_classifier_rejected\<close>). The identifier \<open>constructor\<close> is not
  in the whitelist, but the lookup finds the property inherited from \<open>Object.prototype\<close>,
  the check passes, and all three operations call the upstream with it; here the
  upstream answers 404.
\<close>

theorem inherited_classifier_reaches_upstream:
  "''constructor'' \<notin> set (map fst AVAILABLE_CLASSIFIERS)
   \<and> predict ''http://localhost:5000'' 1700000000000
       (\<lambda>call. Rejected \<lparr>err_response = Some (404, JObj [(''error'', JStr ''Unknown classifier'')]),
                          err_code = Some ''ERR_BAD_REQUEST''\<rparr>)
       \<lparr>params_classifier = ''constructor'', query_model = None,
        body = Some (JObj [(''age'', JNum 45)])\<rparr>
     = (Responded \<lparr>status = 404,
          payload = [(''success'', JBool False), (''error'', JStr ''Unknown classifier'')]\<rparr>,
        [\<lparr>verb = ''POST'', url = ''http://localhost:5000/predict/constructor'',
          data = Some (JObj [(''age'', JNum 45)]), timeout = 10000\<rparr>])
   \<and> compare_models ''http://localhost:5000'' 1700000000000
       (\<lambda>call. Rejected \<lparr>err_response = Some (404, JObj [(''error'', JStr ''Unknown classifier'')]),
                          err_code = Some ''ERR_BAD_REQUEST''\<rparr>)
       \<lparr>params_classifier = ''constructor'', query_model = None,
        body = Some (JObj [(''age'', JNum 45)])\<rparr>
     = (Responded \<lparr>status = 404,
          payload = [(''success'', JBool False), (''error'', JStr ''Unknown classifier'')]\<rparr>,
        [\<lparr>verb = ''POST'', url = ''http://localhost:5000/compare-models/constructor'',
          data = Some (JObj [(''age'', JNum 45)]), timeout = 15000\<rparr>])
   \<and> model_info ''http://localhost:5000''
       (\<lambda>call. Rejected \<lparr>err_response = Some (404, JObj [(''error'', JStr ''Unknown classifier'')]),
                          err_code = Some ''ERR_BAD_REQUEST''\<rparr>)
       \<lparr>params_classifier = ''constructor'', query_model = None, body = None\<rparr>
     = (Responded \<lparr>status = 500,
          payload = [(''success'', JBool False),
                     (''error'', JStr ''Failed to retrieve model information'')]\<rparr>,
        [\<lparr>verb = ''GET'', url = ''http://localhost:5000/model-info/constructor'',
          data = None, timeout = 5000\<rparr>])"
  by (simp add: predict_def predict_try_def predict_forward_def predict_catch_def
        predict_call_def predict_url_def
        compare_models_def compare_models_try_def compare_models_catch_def
        compare_models_call_def model_info_def model_info_try_def model_info_catch_def
        model_info_call_def model_info_url_def upstream_error_def js_or_def
        lookup_classifier_def AVAILABLE_CLASSIFIERS_def object_prototype_keys_def
        input_missing_def send_def)

text \<open>
  Claim C5: in single prediction, when a ModelId is supplied (a query value that is
  truthy, as the handler tests it) and it is not in the list of models of the given
  whitelisted classifier, the gateway answers 400 with a message that names that list,
  and no upstream call is issued.
\<close>

theorem predict_rejects_model_outside_whitelist:
  assumes "map_of AVAILABLE_CLASSIFIERS (params_classifier req) = Some models"
      and "query_model req = Some m"
      and "query_truthy (Some m)"
      and "\<not> array_includes models m"
  shows "predict base now axios req
         = (Responded \<lparr>status = 400,
              payload = [(''success'', JBool False),
                         (''error'', JStr (''Invalid model type. Must be one of: ''
                                            @ join '', '' models))]\<rparr>, [])"
  using assms
  by (simp add: predict_def predict_try_def lookup_classifier_def invalid_model_def send_def)

text \<open>The model \<open>XGBoost\<close> for \<open>BP_Class\<close>.\<close>

theorem predict_rejects_model_outside_whitelist_witness:
  "predict ''http://localhost:5000'' 1700000000000 (\<lambda>call. Fulfilled (JObj []))
     \<lparr>params_classifier = ''BP_Class'', query_model = Some (QString ''XGBoost''),
      body = Some (JObj [(''age'', JNum 45)])\<rparr>
   = (Responded \<lparr>status = 400,
        payload = [(''success'', JBool False),
                   (''error'', JStr ''Invalid model type. Must be one of: GradientBoosting, LogisticRegression, RandomForest'')]\<rparr>,
      [])"
  using predict_rejects_model_outside_whitelist
    [of "\<lparr>params_classifier = ''BP_Class'', query_model = Some (QString ''XGBoost''),
          body = Some (JObj [(''age'', JNum 45)])\<rparr>"
        "[''GradientBoosting'', ''LogisticRegression'', ''RandomForest'']"
        "QString ''XGBoost''" "''http://localhost:5000''" 1700000000000
        "\<lambda>call. Fulfilled (JObj [])"]
  by (simp add: AVAILABLE_CLASSIFIERS_def)






subsection \<open>The timestamp\<close>

lemma digit_is_digit: "is_digit (digit n)"
  unfolding digit_def is_digit_def by (rule nth_mem) simp

lemma toISOString_iso8601: "iso8601 (toISOString t)"
  unfolding toISOString_def iso8601_def year_text_def pad2_def pad3_def pad4_def pad6_def
  by (simp add: digit_is_digit)

lemma toISOString_example: "toISOString 1700000000000 = ''2023-11-14T22:13:20.000Z''"
  by (simp add: toISOString_def YearFromTime_def MonthFromTime_def DateFromTime_def
        msWithinDay_def month_index_def day_of_year_def year_of_era_def day_of_era_def
        year_text_def pad2_def pad3_def pad4_def digit_def)

text \<open>
  Claim C7: when single prediction reaches the upstream and the upstream answers 2xx with
  an object that has \<open>prediction\<close>, \<open>probabilities\<close>, \<open>class_labels\<close> and \<open>model\<close>, the
  gateway answers 200 with exactly eight properties: \<open>success: true\<close>, the classifier of
  the request path, the four upstream values unchanged, the request body as \<open>input\<close>, and
  as \<open>timestamp\<close> the ISO-8601 text of the clock.
\<close>

theorem predict_success_envelope:
  assumes "snd (predict base now axios req) = [call]"
      and "axios call = Fulfilled (JObj d)"
      and "map_of d ''prediction'' = Some p"
      and "map_of d ''probabilities'' = Some ps"
      and "map_of d ''class_labels'' = Some labels"
      and "map_of d ''model'' = Some m"
      and "body req = Some inputData"
  shows "fst (predict base now axios req) =
           Responded \<lparr>status = 200,
             payload = [(''success'', JBool True),
                        (''classifier'', JStr (params_classifier req)),
                        (''prediction'', p),
                        (''probabilities'', ps),
                        (''class_labels'', labels),
                        (''model'', m),
                        (''input'', inputData),
                        (''timestamp'', JStr (toISOString now))]\<rparr>
         \<and> iso8601 (toISOString now)"
proof -
  have "predict_try base now axios req = predict_forward base now axios req"
    and "call = predict_call base req"
    using predict_forwarded [OF assms(1)] by simp_all
  then show ?thesis
    using assms(2-)
    by (simp add: predict_def predict_forward_def send_def toISOString_iso8601)
qed

text \<open>
  The example of the specification: \<open>POST /predict/BP_Class?model=GradientBoosting\<close>,
  answered at 2023-11-14 22:13:20 UTC.
\<close>

theorem predict_success_envelope_witness:
  "fst (predict ''http://localhost:5000'' 1700000000000
         (\<lambda>call. if url call = ''http://localhost:5000/predict/BP_Class?model=GradientBoosting''
                  then Fulfilled (JObj [(''prediction'', JNum 1),
                         (''probabilities'', JArr [JArr [JNum (2 / 10), JNum (8 / 10)]]),
                         (''class_labels'', JArr [JStr ''Negative'', JStr ''Positive'']),
                         (''model'', JStr ''GradientBoosting'')])
                  else Rejected \<lparr>err_response = None, err_code = Some ''ECONNREFUSED''\<rparr>)
         \<lparr>params_classifier = ''BP_Class'', query_model = Some (QString ''GradientBoosting''),
          body = Some (JObj [(''age'', JNum 45), (''sex'', JNum 1)])\<rparr>)
   = Responded \<lparr>status = 200,
       payload = [(''success'', JBool True),
                  (''classifier'', JStr ''BP_Class''),
                  (''prediction'', JNum 1),
                  (''probabilities'', JArr [JArr [JNum (2 / 10), JNum (8 / 10)]]),
                  (''class_labels'', JArr [JStr ''Negative'', JStr ''Positive'']),
                  (''model'', JStr ''GradientBoosting''),
                  (''input'', JObj [(''age'', JNum 45), (''sex'', JNum 1)]),
                  (''timestamp'', JStr ''2023-11-14T22:13:20.000Z'')]\<rparr>
   \<and> iso8601 ''2023-11-14T22:13:20.000Z''"
proof -
  let ?axios = "\<lambda>call. if url call = ''http://localhost:5000/predict/BP_Class?model=GradientBoosting''
                  then Fulfilled (JObj [(''prediction'', JNum 1),
                         (''probabilities'', JArr [JArr [JNum (2 / 10), JNum (8 / 10)]]),
                         (''class_labels'', JArr [JStr ''Negative'', JStr ''Positive'']),
                         (''model'', JStr ''GradientBoosting'')])
                  else Rejected \<lparr>err_response = None, err_code = Some ''ECONNREFUSED''\<rparr>"
  let ?req = "\<lparr>params_classifier = ''BP_Class'', query_model = Some (QString ''GradientBoosting''),
          body = Some (JObj [(''age'', JNum 45), (''sex'', JNum 1)])\<rparr>"
  let ?call = "\<lparr>verb = ''POST'', url = ''http://localhost:5000/predict/BP_Class?model=GradientBoosting'',
                 data = Some (JObj [(''age'', JNum 45), (''sex'', JNum 1)]), timeout = 10000\<rparr>"
  have calls: "snd (predict ''http://localhost:5000'' 1700000000000 ?axios ?req) = [?call]"
    by (simp add: snd_predict predict_try_def predict_forward_def predict_call_def
          predict_url_def lookup_classifier_def AVAILABLE_CLASSIFIERS_def input_missing_def)
  have answer: "?axios ?call = Fulfilled (JObj [(''prediction'', JNum 1),
                         (''probabilities'', JArr [JArr [JNum (2 / 10), JNum (8 / 10)]]),
                         (''class_labels'', JArr [JStr ''Negative'', JStr ''Positive'']),
                         (''model'', JStr ''GradientBoosting'')])"
    by simp
  show ?thesis
    using predict_success_envelope [OF calls answer, of "JNum 1"
        "JArr [JArr [JNum (2 / 10), JNum (8 / 10)]]" "JArr [JStr ''Negative'', JStr ''Positive'']"
        "JStr ''GradientBoosting''" "JObj [(''age'', JNum 45), (''sex'', JNum 1)]"]
    by (simp add: toISOString_example)
qed

text \<open>
  Claim C8: when the call of a relay operation is answered outside 2xx with a JSON object,
  the gateway answers with the same status and the \<open>error\<close> of that object, or with the
  operation's own fallback message when the object has no \<open>error\<close> (or a falsy one).
\<close>

theorem relay_upstream_error_passthrough:
  assumes "axios call = Rejected e" and "err_response e = Some (st, JObj d)"
  shows "(snd (predict base now axios req) = [call] \<longrightarrow>
            fst (predict base now axios req) =
              Responded \<lparr>status = st,
                payload = [(''success'', JBool False),
                           (''error'', js_or (map_of d ''error'') (JStr ''Prediction failed''))]\<rparr>)
       \<and> (snd (predict_all base now axios req) = [call] \<longrightarrow>
            fst (predict_all base now axios req) =
              Responded \<lparr>status = st,
                payload = [(''success'', JBool False),
                           (''error'', js_or (map_of d ''error'') (JStr ''Batch prediction failed''))]\<rparr>)
       \<and> (snd (compare_models base now axios req) = [call] \<longrightarrow>
            fst (compare_models base now axios req) =
              Responded \<lparr>status = st,
                payload = [(''success'', JBool False),
                           (''error'', js_or (map_of d ''error'') (JStr ''Model comparison failed''))]\<rparr>)"
  using assms
  by (simp add: predict_rejected predict_all_rejected compare_models_rejected
        predict_catch_def predict_all_catch_def compare_models_catch_def upstream_error_object)

text \<open>
  An upstream that answers 422 with an \<open>error\<close>, for the three operations, and one that
  answers 502 without it.
\<close>

theorem relay_upstream_error_passthrough_witness:
  "fst (predict ''http://localhost:5000'' 1700000000000
          (\<lambda>call. Rejected \<lparr>err_response = Some (422, JObj [(''error'', JStr ''Missing feature: BMI'')]),
                             err_code = Some ''ERR_BAD_REQUEST''\<rparr>)
          \<lparr>params_classifier = ''BP_Class'', query_model = None,
           body = Some (JObj [(''age'', JNum 45)])\<rparr>)
     = Responded \<lparr>status = 422,
         payload = [(''success'', JBool False), (''error'', JStr ''Missing feature: BMI'')]\<rparr>
   \<and> fst (predict_all ''http://localhost:5000'' 1700000000000
          (\<lambda>call. Rejected \<lparr>err_response = Some (422, JObj [(''error'', JStr ''Missing feature: BMI'')]),
                             err_code = Some ''ERR_BAD_REQUEST''\<rparr>)
          \<lparr>params_classifier = ''BP_Class'', query_model = None,
           body = Some (JObj [(''age'', JNum 45)])\<rparr>)
     = Responded \<lparr>status = 422,
         payload = [(''success'', JBool False), (''error'', JStr ''Missing feature: BMI'')]\<rparr>
   \<and> fst (compare_models ''http://localhost:5000'' 1700000000000
          (\<lambda>call. Rejected \<lparr>err_response = Some (422, JObj [(''error'', JStr ''Missing feature: BMI'')]),
                             err_code = Some ''ERR_BAD_REQUEST''\<rparr>)
          \<lparr>params_classifier = ''BP_Class'', query_model = None,
           body = Some (JObj [(''age'', JNum 45)])\<rparr>)
     = Responded \<lparr>status = 422,
         payload = [(''success'', JBool False), (''error'', JStr ''Missing feature: BMI'')]\<rparr>
   \<and> fst (compare_models ''http://localhost:5000'' 1700000000000
          (\<lambda>call. Rejected \<lparr>err_response = Some (502, JObj [(''detail'', JStr ''bad gateway'')]),
                             err_code = Some ''ERR_BAD_RESPONSE''\<rparr>)
          \<lparr>params_classifier = ''BP_Class'', query_model = None,
           body = Some (JObj [(''age'', JNum 45)])\<rparr>)
     = Responded \<lparr>status = 502,
         payload = [(''success'', JBool False), (''error'', JStr ''Model comparison failed'')]\<rparr>"
proof -
  let ?e = "\<lparr>err_response = Some (422, JObj [(''error'', JStr ''Missing feature: BMI'')]),
             err_code = Some ''ERR_BAD_REQUEST''\<rparr>"
  let ?e' = "\<lparr>err_response = Some (502, JObj [(''detail'', JStr ''bad gateway'')]),
              err_code = Some ''ERR_BAD_RESPONSE''\<rparr>"
  let ?req = "\<lparr>params_classifier = ''BP_Class'', query_model = None,
                body = Some (JObj [(''age'', JNum 45)])\<rparr>"
  let ?base = "''http://localhost:5000''"
  have valid: "lookup_classifier ''BP_Class'' = Own [''GradientBoosting'', ''LogisticRegression'', ''RandomForest'']"
    "\<not> input_missing (Some (JObj [(''age'', JNum 45)]))"
    by (simp_all add: lookup_classifier_def AVAILABLE_CLASSIFIERS_def input_missing_def)
  have p: "snd (predict ?base 1700000000000 (\<lambda>call. Rejected ?e) ?req) = [predict_call ?base ?req]"
    using valid by (simp add: snd_predict predict_try_def snd_predict_forward)
  have a: "snd (predict_all ?base 1700000000000 (\<lambda>call. Rejected ?e) ?req) = [predict_all_call ?base ?req]"
    using valid by (simp add: snd_predict_all)
  have c: "snd (compare_models ?base 1700000000000 (\<lambda>call. Rejected ?e) ?req) = [compare_models_call ?base ?req]"
    using valid by (simp add: snd_compare_models)
  have c': "snd (compare_models ?base 1700000000000 (\<lambda>call. Rejected ?e') ?req) = [compare_models_call ?base ?req]"
    using valid by (simp add: snd_compare_models)
  show ?thesis
    using relay_upstream_error_passthrough
        [of "\<lambda>call. Rejected ?e" "predict_call ?base ?req" ?e 422
            "[(''error'', JStr ''Missing feature: BMI'')]" ?base 1700000000000 ?req]
      relay_upstream_error_passthrough
        [of "\<lambda>call. Rejected ?e" "predict_all_call ?base ?req" ?e 422
            "[(''error'', JStr ''Missing feature: BMI'')]" ?base 1700000000000 ?req]
      relay_upstream_error_passthrough
        [of "\<lambda>call. Rejected ?e" "compare_models_call ?base ?req" ?e 422
            "[(''error'', JStr ''Missing feature: BMI'')]" ?base 1700000000000 ?req]
      relay_upstream_error_passthrough
        [of "\<lambda>call. Rejected ?e'" "compare_models_call ?base ?req" ?e' 502
            "[(''detail'', JStr ''bad gateway'')]" ?base 1700000000000 ?req]
      p a c c'
    by (simp add: js_or_def)
qed

text \<open>
  Claim C10: whatever makes the upstream GET of model-info fail, a response outside 2xx
  or no response at all, the gateway answers 500 with
  \<open>Failed to retrieve model information\<close>; neither the upstream's status nor its
  message is passed on, and there is no 503.
\<close>

theorem model_info_failure_generic_500:
  assumes "snd (model_info base axios req) = [call]" and "axios call = Rejected e"
  shows "fst (model_info base axios req) =
           Responded \<lparr>status = 500,
             payload = [(''success'', JBool False),
                        (''error'', JStr ''Failed to retrieve model information'')]\<rparr>"
  using model_info_rejected [OF assms]
  by (simp add: model_info_catch_def send_def)


text \<open>An upstream that answers 404, and one that refuses the connection.\<close>

theorem model_info_failure_generic_500_witness:
  "fst (model_info ''http://localhost:5000''
          (\<lambda>call. Rejected \<lparr>err_response = Some (404, JObj [(''error'', JStr ''Model not found'')]),
                             err_code = Some ''ERR_BAD_REQUEST''\<rparr>)
          \<lparr>params_classifier = ''BP_Class'', query_model = Some (QString ''RandomForest''),
           body = None\<rparr>)
     = Responded \<lparr>status = 500,
         payload = [(''success'', JBool False),
                    (''error'', JStr ''Failed to retrieve model information'')]\<rparr>
   \<and> fst (model_info ''http://localhost:5000''
          (\<lambda>call. Rejected \<lparr>err_response = None, err_code = Some ''ECONNREFUSED''\<rparr>)
          \<lparr>params_classifier = ''BP_Class'', query_model = Some (QString ''RandomForest''),
           body = None\<rparr>)
     = Responded \<lparr>status = 500,
         payload = [(''success'', JBool False),
                    (''error'', JStr ''Failed to retrieve model information'')]\<rparr>"
proof -
  let ?req = "\<lparr>params_classifier = ''BP_Class'', query_model = Some (QString ''RandomForest''),
                body = None\<rparr>"
  let ?base = "''http://localhost:5000''"
  have valid: "lookup_classifier ''BP_Class'' \<noteq> Undefined"
    by (simp add: lookup_classifier_def AVAILABLE_CLASSIFIERS_def)
  have calls: "snd (model_info ?base axios ?req) = [model_info_call ?base ?req]" for axios
    using valid by (simp add: snd_model_info)
  show ?thesis
    using model_info_failure_generic_500 [OF calls, of "\<lambda>call. Rejected \<lparr>err_response = Some (404, JObj [(''error'', JStr ''Model not found'')]),
                             err_code = Some ''ERR_BAD_REQUEST''\<rparr>"]
      model_info_failure_generic_500 [OF calls, of "\<lambda>call. Rejected \<lparr>err_response = None, err_code = Some ''ECONNREFUSED''\<rparr>"]
    by simp
qed

section \<open>Properties of the client\<close>

subsection \<open>Reading numbers\<close>

lemma parseFloat_examples:
  "parseFloat ''45'' = Finite 45" "parseFloat ''82.5'' = Finite (165 / 2)"
  "parseFloat ''26.04'' = Finite (651 / 25)" "parseFloat ''abc'' = NaN" "parseFloat '''' = NaN"
  "parseFloat ''  -1.5e3kg'' = Finite (- 1500)" "parseFloat ''.5'' = Finite (1 / 2)"
  "parseFloat ''-Infinity'' = MinusInfinity" "parseFloat ''.'' = NaN" "parseFloat ''5.'' = Finite 5"
  "parseFloat ''12e-2'' = Finite (3/25)" "parseFloat ''1e'' = Finite 1" "parseFloat ''+7'' = Finite 7"
  "parseFloat ''- 7'' = NaN" "parseFloat ''0'' = Finite 0" "parseFloat ''1'' = Finite 1"
  "parseFloat ''2'' = Finite 2" "parseFloat ''178'' = Finite 178"
  by (simp_all add: parseFloat_def parse_unsigned_def sign_of_def after_sign_def mantissa_def
      fraction_digits_def after_mantissa_def exponent_def scale_def digits_value_def
      is_digit_def is_white_space_def)

lemma example_valid:
  "validateInputs example_inputs = None"
  "prepareInputData example_inputs = Inr example_record"
  by (simp_all add: validateInputs_def example_inputs_def prepareInputData_def example_record_def parseFloat_examples)


subsection \<open>The two loops\<close>

text \<open>The loops compute the outcome of every pair, and await the nine calls in order.\<close>

lemma classifiers_loop_example:
  "classifiers_loop fetch record (map fst CLASSIFIERS) []
     = (aggregate_of fetch record, map (\<lambda>(c, m). Fetch (predict_request c m record)) pairs)"
  by (simp add: CLASSIFIERS_def MODEL_TYPES_def aggregate_of_def pairs_def)

lemma handlePredictAll_valid:
  assumes "validateInputs inputs = None" and "prepareInputData inputs = Inr record"
  shows "handlePredictAll fetch inputs
         = [SetLoading True, SetError None, SetPrediction None]
           @ map (\<lambda>(c, m). Fetch (predict_request c m record)) pairs
           @ [SetPrediction (Some (Complete (aggregate_of fetch record) record)), SetLoading False]"
  using assms by (simp add: handlePredictAll_def classifiers_loop_example)


lemma entries_aggregate_of:
  "entries (aggregate_of fetch record)
     = map (\<lambda>(c, m). ((c, m), pair_outcome (fetch (predict_request c m record)))) pairs"
  by (simp add: entries_def aggregate_of_def pairs_def CLASSIFIERS_def MODEL_TYPES_def)

lemma final_entries_valid:
  assumes "validateInputs inputs = None" and "prepareInputData inputs = Inr record"
  shows "final_entries v (handlePredictAll fetch inputs)
         = map (\<lambda>(c, m). ((c, m), pair_outcome (fetch (predict_request c m record)))) pairs"
  by (simp add: handlePredictAll_valid [OF assms] final_entries_def run_def entries_aggregate_of)

lemma pairs_explicit:
  "pairs = [(''BP_Class'', ''GradientBoosting''), (''BP_Class'', ''LogisticRegression''),
            (''BP_Class'', ''RandomForest''),
            (''Diabetes_Class'', ''GradientBoosting''), (''Diabetes_Class'', ''LogisticRegression''),
            (''Diabetes_Class'', ''RandomForest''),
            (''Dyslipidemia_Class'', ''GradientBoosting''),
            (''Dyslipidemia_Class'', ''LogisticRegression''),
            (''Dyslipidemia_Class'', ''RandomForest'')]"
  by (simp add: pairs_def CLASSIFIERS_def MODEL_TYPES_def)

lemma distinct_pairs: "distinct pairs"
  by (simp add: pairs_explicit)

lemma succeeds_outcome: "succeeds r \<Longrightarrow> \<not> is_error (pair_outcome r)"
  by (cases r rule: succeeds.cases) (simp_all add: pair_outcome_def)

lemma map_of_graph:
  "distinct xs \<Longrightarrow> x \<in> set xs \<Longrightarrow> map_of (map (\<lambda>x. (x, f x)) xs) x = Some (f x)"
  by (induction xs) auto

lemma count_one:
  assumes "distinct xs" and "x0 \<in> set xs" and "\<forall>x \<in> set xs. P x \<longleftrightarrow> x = x0"
  shows "length (filter P xs) = 1"
proof -
  have "filter P xs = filter (\<lambda>x. x = x0) xs"
    using assms(3) by (intro filter_cong) auto
  also have "\<dots> = [x0]"
    using assms(1,2) by (induction xs) (auto simp: filter_empty_conv)
  finally show ?thesis by simp
qed

text \<open>
  Claim C2: in the complete analysis over the three classifiers and three models, the
  outcome of every pair is recorded on its own. For a valid form, the result on display
  has an entry for each of the nine pairs, and each entry is the outcome of that pair's
  own call. When the call of exactly one pair throws and the other eight are answered
  with a prediction, the nine entries are eight predictions and one error entry, the
  error entry at that pair with the thrown message.
\<close>

theorem one_failing_pair_is_isolated:
  assumes "validateInputs inputs = None" and "prepareInputData inputs = Inr record"
      and "(c0, m0) \<in> set pairs"
      and "fetch (predict_request c0 m0 record) = Failed msg"
      and "\<forall>(c, m) \<in> set pairs. (c, m) \<noteq> (c0, m0) \<longrightarrow> succeeds (fetch (predict_request c m record))"
  shows "map fst (final_entries v (handlePredictAll fetch inputs)) = pairs
       \<and> length (final_entries v (handlePredictAll fetch inputs)) = 9
       \<and> (\<forall>(c, m) \<in> set pairs.
            map_of (final_entries v (handlePredictAll fetch inputs)) (c, m)
              = Some (pair_outcome (fetch (predict_request c m record))))
       \<and> map_of (final_entries v (handlePredictAll fetch inputs)) (c0, m0) = Some (Error (JStr msg))
       \<and> (\<forall>(c, m) \<in> set pairs. (c, m) \<noteq> (c0, m0) \<longrightarrow>
            (\<exists>e. map_of (final_entries v (handlePredictAll fetch inputs)) (c, m) = Some e
                 \<and> \<not> is_error e))
       \<and> length (filter is_error (map snd (final_entries v (handlePredictAll fetch inputs)))) = 1
       \<and> length (filter (\<lambda>e. \<not> is_error e)
                   (map snd (final_entries v (handlePredictAll fetch inputs)))) = 8"
proof -
  let ?f = "\<lambda>p. pair_outcome (fetch (predict_request (fst p) (snd p) record))"
  let ?E = "final_entries v (handlePredictAll fetch inputs)"
  have E: "?E = map (\<lambda>p. (p, ?f p)) pairs"
    by (simp add: final_entries_valid [OF assms(1,2)] case_prod_beta)
  have keys: "map fst ?E = pairs"
    by (simp add: E comp_def)
  have len: "length ?E = 9"
    by (simp add: E pairs_explicit)
  have look: "map_of ?E p = Some (?f p)" if "p \<in> set pairs" for p
    unfolding E using distinct_pairs that by (rule map_of_graph)
  have fail: "?f (c0, m0) = Error (JStr msg)"
    using assms(4) by (simp add: pair_outcome_def)
  have ok: "\<not> is_error (?f p)" if "p \<in> set pairs" "p \<noteq> (c0, m0)" for p
  proof -
    from assms(5) that have "succeeds (fetch (predict_request (fst p) (snd p) record))"
      by (cases p) auto
    then show ?thesis by (rule succeeds_outcome)
  qed
  have iff: "\<forall>p \<in> set pairs. is_error (?f p) \<longleftrightarrow> p = (c0, m0)"
    using ok fail by auto
  have "filter is_error (map snd ?E) = map ?f (filter (\<lambda>p. is_error (?f p)) pairs)"
    by (simp add: E filter_map comp_def)
  then have errs: "length (filter is_error (map snd ?E)) = 1"
    using count_one [OF distinct_pairs assms(3) iff] by simp
  have "length (filter is_error (map snd ?E)) + length (filter (\<lambda>e. \<not> is_error e) (map snd ?E))
          = length (map snd ?E)"
    by (rule sum_length_filter_compl)
  with errs len have oks: "length (filter (\<lambda>e. \<not> is_error e) (map snd ?E)) = 8"
    by simp
  from keys len look fail ok errs oks assms(3) show ?thesis
    by (auto simp del: One_nat_def)
qed


lemma failing_at_fails:
  "failing_at c m (predict_request c m record) = Failed ''Failed to fetch''"
  by (simp add: failing_at_def predict_request_def)

lemma failing_at_succeeds:
  "\<forall>(c, m) \<in> set pairs. (c, m) \<noteq> (''Diabetes_Class'', ''LogisticRegression'') \<longrightarrow>
     succeeds (failing_at ''Diabetes_Class'' ''LogisticRegression'' (predict_request c m record))"
  by (simp add: pairs_explicit failing_at_def predict_request_def truthy_opt_def)

text \<open>The call for Diabetes_Class with LogisticRegression fails.\<close>

theorem one_failing_pair_is_isolated_witness:
  "length (final_entries initial_view
             (handlePredictAll (failing_at ''Diabetes_Class'' ''LogisticRegression'') example_inputs)) = 9
   \<and> map_of (final_entries initial_view
               (handlePredictAll (failing_at ''Diabetes_Class'' ''LogisticRegression'') example_inputs))
        (''Diabetes_Class'', ''LogisticRegression'') = Some (Error (JStr ''Failed to fetch''))
   \<and> length (filter is_error (map snd (final_entries initial_view
               (handlePredictAll (failing_at ''Diabetes_Class'' ''LogisticRegression'') example_inputs)))) = 1
   \<and> length (filter (\<lambda>e. \<not> is_error e) (map snd (final_entries initial_view
               (handlePredictAll (failing_at ''Diabetes_Class'' ''LogisticRegression'') example_inputs)))) = 8"
proof -
  have member: "(''Diabetes_Class'', ''LogisticRegression'') \<in> set pairs"
    by (simp add: pairs_explicit)
  note others = failing_at_succeeds [of example_record]
  show ?thesis
    using one_failing_pair_is_isolated
        [OF example_valid member failing_at_fails others, of initial_view]
    by (simp del: One_nat_def)
qed


lemma prediction_history_valid:
  "map prediction
     (history v ([SetLoading True, SetError None, SetPrediction None]
        @ map (\<lambda>(c, m). Fetch (predict_request c m record)) pairs
        @ [SetPrediction (Some d), SetLoading False]))
   = replicate 3 (prediction v) @ replicate 10 None @ replicate 2 (Some d)"
  by (simp add: pairs_explicit eval_nat_numeral)

text \<open>
  Claim C3, as stated: the prediction state is updated exactly once, and only after all
  pairs have resolved. The handler calls \<open>setPrediction\<close> twice: with \<open>null\<close> before
  the first call is issued, and with the result after the last.
\<close>

theorem handlePredictAll_updates_prediction_twice:
  "length (filter is_prediction_update
             (handlePredictAll (failing_at ''Diabetes_Class'' ''LogisticRegression'') example_inputs)) = 2
   \<and> take 4 (handlePredictAll (failing_at ''Diabetes_Class'' ''LogisticRegression'') example_inputs)
       = [SetLoading True, SetError None, SetPrediction None,
          Fetch (predict_request ''BP_Class'' ''GradientBoosting'' example_record)]"
  by (simp add: handlePredictAll_valid [OF example_valid] pairs_explicit)

text \<open>
  Claim C3, amended: for a valid form the handler clears the prediction state to
  \<open>null\<close> before it issues the first call, and sets it once more, to the complete
  result with its nine entries, after all nine calls have been awaited. In between,
  the state on display is \<open>null\<close>: no partial result is ever shown.
\<close>

theorem aggregate_published_once_after_all_pairs:
  assumes "validateInputs inputs = None" and "prepareInputData inputs = Inr record"
  shows "handlePredictAll fetch inputs
           = [SetLoading True, SetError None, SetPrediction None]
             @ map (\<lambda>(c, m). Fetch (predict_request c m record)) pairs
             @ [SetPrediction (Some (Complete (aggregate_of fetch record) record)),
                SetLoading False]
       \<and> map fst (entries (aggregate_of fetch record)) = pairs
       \<and> length pairs = 9
       \<and> map prediction (history v (handlePredictAll fetch inputs))
           = replicate 3 (prediction v) @ replicate 10 None
             @ replicate 2 (Some (Complete (aggregate_of fetch record) record))"
proof -
  note trace = handlePredictAll_valid [OF assms, of fetch]
  have keys: "map fst (entries (aggregate_of fetch record)) = pairs"
    by (simp add: entries_aggregate_of comp_def case_prod_beta)
  have nine: "length pairs = 9"
    by (simp add: pairs_explicit)
  have shown: "map prediction (history v (handlePredictAll fetch inputs))
                 = replicate 3 (prediction v) @ replicate 10 None
                   @ replicate 2 (Some (Complete (aggregate_of fetch record) record))"
    unfolding trace by (rule prediction_history_valid)
  from trace keys nine shown show ?thesis
    by (intro conjI)
qed

text \<open>The filled form, with one failing pair.\<close>

theorem aggregate_published_once_after_all_pairs_witness:
  "handlePredictAll (failing_at ''Diabetes_Class'' ''LogisticRegression'') example_inputs
     = [SetLoading True, SetError None, SetPrediction None]
       @ map (\<lambda>(c, m). Fetch (predict_request c m example_record)) pairs
       @ [SetPrediction (Some (Complete
            (aggregate_of (failing_at ''Diabetes_Class'' ''LogisticRegression'') example_record)
            example_record)),
          SetLoading False]
   \<and> map prediction (history initial_view
        (handlePredictAll (failing_at ''Diabetes_Class'' ''LogisticRegression'') example_inputs))
       = replicate 3 None @ replicate 10 None
         @ replicate 2 (Some (Complete
             (aggregate_of (failing_at ''Diabetes_Class'' ''LogisticRegression'') example_record)
             example_record))"
proof -
  note t = aggregate_published_once_after_all_pairs
      [OF example_valid, of "failing_at ''Diabetes_Class'' ''LogisticRegression''" initial_view]
  have cleared: "prediction initial_view = None"
    by (simp add: initial_view_def)
  from t have trace: "handlePredictAll (failing_at ''Diabetes_Class'' ''LogisticRegression'') example_inputs
     = [SetLoading True, SetError None, SetPrediction None]
       @ map (\<lambda>(c, m). Fetch (predict_request c m example_record)) pairs
       @ [SetPrediction (Some (Complete
            (aggregate_of (failing_at ''Diabetes_Class'' ''LogisticRegression'') example_record)
            example_record)),
          SetLoading False]"
    by (rule conjunct1)
  from t have "map prediction (history initial_view
        (handlePredictAll (failing_at ''Diabetes_Class'' ''LogisticRegression'') example_inputs))
       = replicate 3 (prediction initial_view) @ replicate 10 None
         @ replicate 2 (Some (Complete
             (aggregate_of (failing_at ''Diabetes_Class'' ''LogisticRegression'') example_record)
             example_record))"
    by blast
  with trace show ?thesis
    unfolding cleared by (intro conjI)
qed


subsection \<open>Validation before dispatch\<close>

lemma validateInputs_None:
  "validateInputs inputs = None \<longleftrightarrow> filter (\<lambda>(key, v). v = []) inputs = []"
  by (simp add: validateInputs_def Let_def)

lemma validateInputs_Some:
  "filter (\<lambda>(key, v). v = []) inputs \<noteq> [] \<Longrightarrow>
     validateInputs inputs
       = Some (''Please fill in all fields: ''
                 @ join '', '' (map (\<lambda>(key, v). field_label key) (filter (\<lambda>(key, v). v = []) inputs)))"
  by (simp add: validateInputs_def Let_def)

lemma prepareInputData_loop_throws:
  "find (\<lambda>(key, v). parseFloat v = NaN) inputs = Some (key, v) \<Longrightarrow>
     prepareInputData_loop inputs numericInputs
       = Inl (''Invalid numeric value for '' @ field_label key @ '': '' @ v)"
  by (induction inputs arbitrary: numericInputs) (auto split: if_splits)

lemma prepareInputData_loop_returns:
  "find (\<lambda>(key, v). parseFloat v = NaN) inputs = None \<Longrightarrow>
     \<exists>r. prepareInputData_loop inputs numericInputs = Inr r"
  by (induction inputs arbitrary: numericInputs) (auto split: if_splits)

lemma no_fetch_without_valid_inputs:
  assumes "(k, v) \<in> set inputs" and "v = [] \<or> parseFloat v = NaN"
  shows "\<not> (\<exists>e \<in> set (handlePredictAll fetch inputs). is_fetch e)"
    and "\<not> (\<exists>e \<in> set (handleSinglePredict fetch inputs classifier modelType). is_fetch e)"
proof -
  show "\<not> (\<exists>e \<in> set (handlePredictAll fetch inputs). is_fetch e)"
  proof (cases "filter (\<lambda>(key, v). v = []) inputs = []")
    case False
    then show ?thesis
      by (simp add: handlePredictAll_def validateInputs_Some)
  next
    case True
    with assms have "v \<noteq> []"
      by (auto simp: filter_empty_conv)
    with assms have "\<exists>x \<in> set inputs. (\<lambda>(key, v). parseFloat v = NaN) x"
      by auto
    then obtain k' v' where "find (\<lambda>(key, v). parseFloat v = NaN) inputs = Some (k', v')"
      by (cases "find (\<lambda>(key, v). parseFloat v = NaN) inputs") (auto simp: find_None_iff)
    with True show ?thesis
      by (simp add: handlePredictAll_def validateInputs_None [THEN iffD2] prepareInputData_def
            prepareInputData_loop_throws)
  qed
  show "\<not> (\<exists>e \<in> set (handleSinglePredict fetch inputs classifier modelType). is_fetch e)"
  proof (cases "filter (\<lambda>(key, v). v = []) inputs = []")
    case False
    then show ?thesis
      by (simp add: handleSinglePredict_def validateInputs_Some)
  next
    case True
    with assms have "v \<noteq> []"
      by (auto simp: filter_empty_conv)
    with assms have "\<exists>x \<in> set inputs. (\<lambda>(key, v). parseFloat v = NaN) x"
      by auto
    then obtain k' v' where "find (\<lambda>(key, v). parseFloat v = NaN) inputs = Some (k', v')"
      by (cases "find (\<lambda>(key, v). parseFloat v = NaN) inputs") (auto simp: find_None_iff)
    with True show ?thesis
      by (simp add: handleSinglePredict_def validateInputs_None [THEN iffD2] prepareInputData_def
            prepareInputData_loop_throws)
  qed
qed

text \<open>
  Claim C9: validation precedes dispatch, in the single prediction and in the complete
  analysis. When some field is empty, the only effect is the error that lists the
  labels of the empty fields. When no field is empty and some value is not numeric
  (\<open>parseFloat\<close> gives NaN), the handler reports the label and the value of the first
  such field. In both cases no call is issued: a call is issued only when every field
  is filled and numeric.
\<close>

theorem validation_precedes_dispatch:
  "(filter (\<lambda>(key, v). v = []) inputs \<noteq> [] \<longrightarrow>
      handlePredictAll fetch inputs
        = [SetError (Some (Message (''Please fill in all fields: ''
             @ join '', '' (map (\<lambda>(key, v). field_label key)
                              (filter (\<lambda>(key, v). v = []) inputs)))))]
    \<and> handleSinglePredict fetch inputs classifier modelType
        = [SetError (Some (Message (''Please fill in all fields: ''
             @ join '', '' (map (\<lambda>(key, v). field_label key)
                              (filter (\<lambda>(key, v). v = []) inputs)))))])
   \<and> (filter (\<lambda>(key, v). v = []) inputs = []
        \<and> find (\<lambda>(key, v). parseFloat v = NaN) inputs = Some (k, x) \<longrightarrow>
      handlePredictAll fetch inputs
        = [SetLoading True, SetError None, SetPrediction None,
           SetError (Some (Message (''Invalid numeric value for '' @ field_label k @ '': '' @ x))),
           SetLoading False]
    \<and> handleSinglePredict fetch inputs classifier modelType
        = [SetLoading True, SetError None, SetPrediction None,
           SetError (Some (Message (''Invalid numeric value for '' @ field_label k @ '': '' @ x))),
           SetLoading False])
   \<and> ((\<exists>e \<in> set (handlePredictAll fetch inputs). is_fetch e)
        \<or> (\<exists>e \<in> set (handleSinglePredict fetch inputs classifier modelType). is_fetch e) \<longrightarrow>
      (\<forall>(key, v) \<in> set inputs. v \<noteq> [] \<and> parseFloat v \<noteq> NaN))"
proof (intro conjI impI)
  assume "filter (\<lambda>(key, v). v = []) inputs \<noteq> []"
  then show "handlePredictAll fetch inputs
        = [SetError (Some (Message (''Please fill in all fields: ''
             @ join '', '' (map (\<lambda>(key, v). field_label key)
                              (filter (\<lambda>(key, v). v = []) inputs)))))]"
    and "handleSinglePredict fetch inputs classifier modelType
        = [SetError (Some (Message (''Please fill in all fields: ''
             @ join '', '' (map (\<lambda>(key, v). field_label key)
                              (filter (\<lambda>(key, v). v = []) inputs)))))]"
    by (simp_all add: handlePredictAll_def handleSinglePredict_def validateInputs_Some)
next
  assume "filter (\<lambda>(key, v). v = []) inputs = []
            \<and> find (\<lambda>(key, v). parseFloat v = NaN) inputs = Some (k, x)"
  then show "handlePredictAll fetch inputs
        = [SetLoading True, SetError None, SetPrediction None,
           SetError (Some (Message (''Invalid numeric value for '' @ field_label k @ '': '' @ x))),
           SetLoading False]"
    and "handleSinglePredict fetch inputs classifier modelType
        = [SetLoading True, SetError None, SetPrediction None,
           SetError (Some (Message (''Invalid numeric value for '' @ field_label k @ '': '' @ x))),
           SetLoading False]"
    by (simp_all add: handlePredictAll_def handleSinglePredict_def
          validateInputs_None [THEN iffD2] prepareInputData_def prepareInputData_loop_throws)
next
  assume issued: "(\<exists>e \<in> set (handlePredictAll fetch inputs). is_fetch e)
        \<or> (\<exists>e \<in> set (handleSinglePredict fetch inputs classifier modelType). is_fetch e)"
  show "\<forall>(key, v) \<in> set inputs. v \<noteq> [] \<and> parseFloat v \<noteq> NaN"
  proof (clarify, rule ccontr)
    fix key v
    assume field: "(key, v) \<in> set inputs" and "\<not> (v \<noteq> [] \<and> parseFloat v \<noteq> NaN)"
    then have bad: "v = [] \<or> parseFloat v = NaN"
      by blast
    from issued no_fetch_without_valid_inputs(1) [OF field bad, of fetch]
      no_fetch_without_valid_inputs(2) [OF field bad, of fetch classifier modelType]
    show False
      by blast
  qed
qed


text \<open>
  The filled form with the weight emptied, with the age changed to \<open>abc\<close>, and as it
  is.
\<close>

theorem validation_precedes_dispatch_witness:
  "handlePredictAll (failing_at ''Diabetes_Class'' ''LogisticRegression'')
       (handleChange example_inputs ''weight'' [])
     = [SetError (Some (Message ''Please fill in all fields: Weight (kg)''))]
   \<and> handleSinglePredict (failing_at ''Diabetes_Class'' ''LogisticRegression'')
       (handleChange example_inputs ''age'' ''abc'') ''BP_Class'' ''RandomForest''
     = [SetLoading True, SetError None, SetPrediction None,
        SetError (Some (Message ''Invalid numeric value for Age: abc'')), SetLoading False]
   \<and> list_all (\<lambda>(key, v). v \<noteq> [] \<and> parseFloat v \<noteq> NaN) example_inputs"
proof -
  let ?fetch = "failing_at ''Diabetes_Class'' ''LogisticRegression''"
  let ?a = "handleChange example_inputs ''weight'' []"
  let ?b = "handleChange example_inputs ''age'' ''abc''"
  have a: "filter (\<lambda>(key, v). v = []) ?a = [(''weight'', [])]"
    by (simp add: handleChange_def example_inputs_def)
  have b: "filter (\<lambda>(key, v). v = []) ?b = []"
    "find (\<lambda>(key, v). parseFloat v = NaN) ?b = Some (''age'', ''abc'')"
    by (simp_all add: handleChange_def example_inputs_def parseFloat_examples)
  have c: "\<exists>e \<in> set (handlePredictAll ?fetch example_inputs). is_fetch e"
    by (simp add: handlePredictAll_valid [OF example_valid] pairs_explicit)
  have label: "field_label ''weight'' = ''Weight (kg)''" "field_label ''age'' = ''Age''"
    by (simp_all add: field_label_def FIELD_CONFIG_def)
  from validation_precedes_dispatch
    [where inputs = ?a and fetch = ?fetch and classifier = "''BP_Class''"
       and modelType = "''RandomForest''"] a label
  have 1: "handlePredictAll ?fetch ?a
             = [SetError (Some (Message ''Please fill in all fields: Weight (kg)''))]"
    by simp
  from validation_precedes_dispatch
    [where inputs = ?b and k = "''age''" and x = "''abc''" and fetch = ?fetch
       and classifier = "''BP_Class''" and modelType = "''RandomForest''"] b label
  have 2: "handleSinglePredict ?fetch ?b ''BP_Class'' ''RandomForest''
     = [SetLoading True, SetError None, SetPrediction None,
        SetError (Some (Message ''Invalid numeric value for Age: abc'')), SetLoading False]"
    by simp
  from validation_precedes_dispatch [where inputs = example_inputs and fetch = ?fetch] c
  have 3: "list_all (\<lambda>(key, v). v \<noteq> [] \<and> parseFloat v \<noteq> NaN) example_inputs"
    unfolding list_all_iff by blast
  from 1 2 3 show ?thesis
    by (intro conjI)
qed

end
